theory Spec2Isabelle
  imports Main
begin

section \<open>The document model (lib/db.ts)\<close>

text \<open>
  One \<open>ShortLink\<close> document per shortened URL. \<open>createdAt\<close> is a JavaScript
  \<open>Date\<close>, kept as its number of milliseconds; \<open>clicks\<close> is a \<open>number\<close> that the
  program only ever sets to 0 and increments by 1, kept as an unbounded integer;
  \<open>creatorIp\<close> is the optional field.
\<close>

record ShortLink =
  longUrl :: string
  shortCode :: string
  createdAt :: int
  clicks :: int
  creatorIp :: "string option"

text \<open>
  The collection \<open>db.shortLinks\<close> holds documents under document ids. It is kept as
  the list of its documents, each with its id, in the order in which a query returns
  them: \<open>results[0]\<close> is the head of the filtered list.
\<close>

type_synonym doc = "string \<times> ShortLink"
type_synonym collection = "doc list"

text \<open>
  \<open>db.shortLinks.add(data)\<close>: the store chooses the id of the new document, and with it
  the place of the document among the query results. Both are inputs of the model
  (\<open>newId\<close>, \<open>pos\<close>); a position past the end appends.
\<close>

definition shortLinks_add :: "nat \<Rightarrow> string \<Rightarrow> ShortLink \<Rightarrow> collection \<Rightarrow> collection" where
  "shortLinks_add pos newId data col = take pos col @ (newId, data) # drop pos col"

text \<open>\<open>db.shortLinks.query(($) => $.field('shortCode').eq(shortCode))\<close>\<close>

definition shortLinks_query :: "string \<Rightarrow> collection \<Rightarrow> doc list" where
  "shortLinks_query code col = filter (\<lambda>d. shortCode (snd d) = code) col"

text \<open>\<open>db.shortLinks.get(db.shortLinks.id(id))\<close>\<close>

definition shortLinks_get :: "string \<Rightarrow> collection \<Rightarrow> doc option" where
  "shortLinks_get i col = find (\<lambda>d. fst d = i) col"

text \<open>
  \<open>db.shortLinks.update(id, ($) => ({ clicks: $.increment(1) }))\<close>: the store adds 1 to
  the \<open>clicks\<close> field of the document with that id and writes no other field.
\<close>

definition increment :: "int \<Rightarrow> ShortLink \<Rightarrow> ShortLink" where
  "increment n d = d\<lparr>clicks := clicks d + n\<rparr>"

definition shortLinks_update :: "string \<Rightarrow> (ShortLink \<Rightarrow> ShortLink) \<Rightarrow> collection \<Rightarrow> collection" where
  "shortLinks_update i f col = map (\<lambda>d. if fst d = i then (fst d, f (snd d)) else d) col"

section \<open>LinkShortenerRepository\<close>

text \<open>\<open>create\<close> returns the stored data together with the id of the new document.\<close>

definition create :: "nat \<Rightarrow> string \<Rightarrow> ShortLink \<Rightarrow> collection \<Rightarrow> doc \<times> collection" where
  "create pos newId data col = ((newId, data), shortLinks_add pos newId data col)"

text \<open>\<open>results.length > 0 ? results[0].data : null\<close>\<close>

definition findByShortCode :: "string \<Rightarrow> collection \<Rightarrow> ShortLink option" where
  "findByShortCode code col =
     (case shortLinks_query code col of [] \<Rightarrow> None | d # _ \<Rightarrow> Some (snd d))"

definition findById :: "string \<Rightarrow> collection \<Rightarrow> ShortLink option" where
  "findById i col = (case shortLinks_get i col of None \<Rightarrow> None | Some d \<Rightarrow> Some (snd d))"

text \<open>
  \<open>incrementClicks\<close> queries by code again and, when there is a result, updates the
  document \<open>results[0]\<close> through its id.
\<close>

definition incrementClicks :: "string \<Rightarrow> collection \<Rightarrow> collection" where
  "incrementClicks code col =
     (case shortLinks_query code col of
        [] \<Rightarrow> col
      | d # _ \<Rightarrow> shortLinks_update (fst d) (increment 1) col)"

section \<open>The DTOs (link-shortener.dto)\<close>

text \<open>
  The fields of the two DTO classes carry a prefix, since \<open>longUrl\<close>, \<open>shortCode\<close>,
  \<open>createdAt\<close> and \<open>clicks\<close> already name the fields of \<open>ShortLink\<close>. An absent
  \<open>customAlias\<close> is \<open>None\<close>. \<open>ShortLinkResponseDto\<close> has no field for the creator's IP.
\<close>

record CreateShortLinkDto =
  dto_longUrl :: string
  dto_customAlias :: "string option"

record ShortLinkResponseDto =
  res_shortCode :: string
  res_longUrl :: string
  res_shortUrl :: string
  res_createdAt :: int
  res_clicks :: int

text \<open>
  The exceptions a request can end with: the two the service throws, with their
  messages, and the \<open>BadRequestException\<close> (HTTP 400) with which the validation pipe
  rejects a body that fails validation.
\<close>

datatype error =
    ConflictException string
  | NotFoundException string
  | BadRequestException

section \<open>LinkShortenerService\<close>

text \<open>
  \<open>String.prototype.substring(start, stop)\<close>: both indices are clamped to the length
  and swapped when \<open>start\<close> is the larger.
\<close>

definition substring :: "nat \<Rightarrow> nat \<Rightarrow> string \<Rightarrow> string" where
  "substring start stop s =
     (let n = length s; a = min start n; b = min stop n
      in take (max a b - min a b) (drop (min a b) s))"

text \<open>
  \<open>Math.random().toString(36).substring(2, 8)\<close>. The argument \<open>r\<close> is the text
  \<open>Math.random().toString(36)\<close> of the draw: \<open>''0''\<close> for the draw 0 and otherwise
  \<open>''0.''\<close> followed by the base-36 digits of the fraction, as many as the number
  has (\<open>''0.i''\<close> for the draw 0.5, since 18/36 = 1/2).
\<close>

definition generateShortCode :: "string \<Rightarrow> string" where
  "generateShortCode r = substring 2 8 r"

text \<open>
  What a call of \<open>createShortLink\<close> takes from its environment: the text of the random
  draw (read only when the generator is called), the time \<open>new Date()\<close>, and the id and
  position the store gives the new document.
\<close>

record env =
  env_random :: string
  env_now :: int
  env_id :: string
  env_pos :: nat

text \<open>
  \<open>createDto.customAlias || this.generateShortCode()\<close>: \<open>||\<close> takes its right operand
  when the left one is falsy, which for an optional string is \<open>undefined\<close> or the empty
  string.
\<close>

definition resolveShortCode :: "env \<Rightarrow> CreateShortLinkDto \<Rightarrow> string" where
  "resolveShortCode e createDto =
     (case dto_customAlias createDto of
        None \<Rightarrow> generateShortCode (env_random e)
      | Some a \<Rightarrow> if a = [] then generateShortCode (env_random e) else a)"

text \<open>The base URL is the configuration value \<open>env.linkShortener.url\<close>.\<close>

definition buildResponse :: "string \<Rightarrow> ShortLink \<Rightarrow> ShortLinkResponseDto" where
  "buildResponse baseUrl shortLink =
     \<lparr> res_shortCode = shortCode shortLink,
       res_longUrl = longUrl shortLink,
       res_shortUrl = baseUrl @ ''/'' @ shortCode shortLink,
       res_createdAt = createdAt shortLink,
       res_clicks = clicks shortLink \<rparr>"

definition quoted :: "string \<Rightarrow> string" where
  "quoted s = [CHR 0x22] @ s @ [CHR 0x22]"

definition conflictMessage :: "string \<Rightarrow> string" where
  "conflictMessage code =
     ''Short code '' @ quoted code @ '' is already in use. Please choose another alias.''"

definition createShortLink ::
  "string \<Rightarrow> env \<Rightarrow> CreateShortLinkDto \<Rightarrow> string option \<Rightarrow> collection
     \<Rightarrow> (error + ShortLinkResponseDto) \<times> collection" where
  "createShortLink baseUrl e createDto ip col =
     (let code = resolveShortCode e createDto in
      case findByShortCode code col of
        Some existing \<Rightarrow> (Inl (ConflictException (conflictMessage code)), col)
      | None \<Rightarrow>
          (let shortLink = \<lparr> longUrl = dto_longUrl createDto, shortCode = code,
                              createdAt = env_now e, clicks = 0, creatorIp = ip \<rparr>;
               (created, col') = create (env_pos e) (env_id e) shortLink col
           in (Inr (buildResponse baseUrl (snd created)), col')))"

text \<open>
  \<open>getLongUrl\<close> starts \<open>incrementClicks\<close> without awaiting it and attaches a handler
  that writes a rejection to the console. Whether the store rejects that detached call
  is an input of the model: \<open>None\<close> when the call is fulfilled, \<open>Some err\<close> when the
  store rejects it with \<open>err\<close>, in which case nothing was written. The function returns
  its result, the collection once the detached call has settled, and the lines written
  to the console.
\<close>

definition notFoundMessage :: "string \<Rightarrow> string" where
  "notFoundMessage code =
     ''Short link '' @ quoted code @ '' not found. Please check the URL and try again.''"

definition getLongUrl ::
  "string option \<Rightarrow> string \<Rightarrow> collection \<Rightarrow> (error + string) \<times> collection \<times> string list" where
  "getLongUrl rejection code col =
     (case findByShortCode code col of
        None \<Rightarrow> (Inl (NotFoundException (notFoundMessage code)), col, [])
      | Some shortLink \<Rightarrow>
          (case rejection of
             None \<Rightarrow> (Inr (longUrl shortLink), incrementClicks code col, [])
           | Some err \<Rightarrow>
               (Inr (longUrl shortLink), col, [''Failed to increment clicks: '' @ err])))"

definition getShortLinkDetails ::
  "string \<Rightarrow> string \<Rightarrow> collection \<Rightarrow> error + ShortLinkResponseDto" where
  "getShortLinkDetails baseUrl code col =
     (case findByShortCode code col of
        None \<Rightarrow> Inl (NotFoundException (''Short link '' @ quoted code @ '' not found.''))
      | Some shortLink \<Rightarrow> Inr (buildResponse baseUrl shortLink))"

section \<open>Request validation and the controller\<close>

text \<open>
  The decorators of \<open>customAlias\<close> and of the \<open>shortCode\<close> parameter:
  \<open>MinLength(3)\<close>, \<open>MaxLength(50)\<close> and \<open>Matches(/^[a-zA-Z0-9-_]+$/)\<close>. The
  pattern asks for one character or more, each a letter, a digit, a hyphen or an
  underscore.
\<close>

definition alias_char :: "char \<Rightarrow> bool" where
  "alias_char c =
     (let n = (of_char c :: nat)
      in (97 \<le> n \<and> n \<le> 122) \<or> (65 \<le> n \<and> n \<le> 90) \<or> (48 \<le> n \<and> n \<le> 57)
         \<or> c = CHR ''-'' \<or> c = CHR ''_'')"

definition Matches :: "string \<Rightarrow> bool" where
  "Matches s = (s \<noteq> [] \<and> list_all alias_char s)"

definition MinLength :: "nat \<Rightarrow> string \<Rightarrow> bool" where
  "MinLength n s = (n \<le> length s)"

definition MaxLength :: "nat \<Rightarrow> string \<Rightarrow> bool" where
  "MaxLength n s = (length s \<le> n)"

text \<open>\<open>ShortCodeParamDto.shortCode\<close>: the three rules, on a value that must be there.\<close>

definition validate_shortCode :: "string \<Rightarrow> bool" where
  "validate_shortCode s = (MinLength 3 s \<and> MaxLength 50 s \<and> Matches s)"

text \<open>
  \<open>CreateShortLinkDto.customAlias\<close>: \<open>IsOptional\<close> skips the other rules when the
  value is absent; a value that is there, the empty string too, is checked against all
  of them.
\<close>

definition validate_customAlias :: "string option \<Rightarrow> bool" where
  "validate_customAlias v =
     (case v of None \<Rightarrow> True | Some a \<Rightarrow> MinLength 3 a \<and> MaxLength 50 a \<and> Matches a)"

text \<open>
  \<open>IsUrl({ require_protocol: true })\<close> is a check of the validation library; it is the
  parameter \<open>isUrl\<close>.
\<close>

definition validate_CreateShortLinkDto :: "(string \<Rightarrow> bool) \<Rightarrow> CreateShortLinkDto \<Rightarrow> bool" where
  "validate_CreateShortLinkDto isUrl createDto =
     (isUrl (dto_longUrl createDto) \<and> validate_customAlias (dto_customAlias createDto))"

text \<open>
  \<open>POST /shorten\<close>: the global \<open>ValidationPipe\<close> validates the body and answers 400
  before the handler runs; the handler \<open>LinkShortenerController.createShortLink\<close> passes
  the body and the caller's IP to the service.
\<close>

definition controller_createShortLink ::
  "(string \<Rightarrow> bool) \<Rightarrow> string \<Rightarrow> env \<Rightarrow> CreateShortLinkDto \<Rightarrow> string \<Rightarrow> collection
     \<Rightarrow> (error + ShortLinkResponseDto) \<times> collection" where
  "controller_createShortLink isUrl baseUrl e createDto ip col =
     (if validate_CreateShortLinkDto isUrl createDto
      then createShortLink baseUrl e createDto (Some ip) col
      else (Inl BadRequestException, col))"

section \<open>Sequences of operations\<close>

text \<open>
  The four operations that reach the collection, each with what it takes from its
  environment, and their effect on the collection. \<open>getShortLinkDetails\<close> only reads.
\<close>

datatype operation =
    CreateShortLink env CreateShortLinkDto "string option"
  | GetLongUrl "string option" string
  | GetShortLinkDetails string
  | IncrementClicks string

fun perform :: "string \<Rightarrow> operation \<Rightarrow> collection \<Rightarrow> collection" where
  "perform baseUrl (CreateShortLink e createDto ip) col =
     snd (createShortLink baseUrl e createDto ip col)"
| "perform baseUrl (GetLongUrl rejection code) col = fst (snd (getLongUrl rejection code col))"
| "perform baseUrl (GetShortLinkDetails code) col = col"
| "perform baseUrl (IncrementClicks code) col = incrementClicks code col"

fun perform_all :: "string \<Rightarrow> operation list \<Rightarrow> collection \<Rightarrow> collection" where
  "perform_all baseUrl [] col = col"
| "perform_all baseUrl (op # ops) col = perform_all baseUrl ops (perform baseUrl op col)"

section \<open>A small collection for the examples\<close>

definition example_link :: ShortLink where
  "example_link =
     \<lparr> longUrl = ''https://example.com/a/b/c'', shortCode = ''abc123'',
       createdAt = 1700000000000, clicks = 0, creatorIp = Some ''203.0.113.7'' \<rparr>"

definition example_collection :: collection where
  "example_collection = [(''doc1'', example_link)]"

definition example_env :: env where
  "example_env = \<lparr> env_random = ''0.k7x2mq9d1f'', env_now = 1700000000500,
                    env_id = ''doc2'', env_pos = 0 \<rparr>"

definition example_dto :: CreateShortLinkDto where
  "example_dto = \<lparr> dto_longUrl = ''https://example.org/'', dto_customAlias = None \<rparr>"

section \<open>Queries, additions and updates\<close>

lemma findByShortCode_None_iff:
  "findByShortCode code col = None \<longleftrightarrow> list_all (\<lambda>d. shortCode (snd d) \<noteq> code) col"
  by (induction col) (auto simp: findByShortCode_def shortLinks_query_def split: list.splits)

lemma findByShortCode_Some_mem:
  "findByShortCode code col = Some d \<Longrightarrow> \<exists>i. (i, d) \<in> set col \<and> shortCode d = code"
proof -
  assume a: "findByShortCode code col = Some d"
  then obtain x xs where q: "shortLinks_query code col = x # xs" and d: "d = snd x"
    by (auto simp: findByShortCode_def split: list.splits)
  have "x \<in> set (shortLinks_query code col)" using q by simp
  then have "x \<in> set col \<and> shortCode (snd x) = code" by (simp add: shortLinks_query_def)
  then show ?thesis using d by (cases x) auto
qed

lemma query_update:
  "shortLinks_query code (shortLinks_update i (increment n) col) =
   shortLinks_update i (increment n) (shortLinks_query code col)"
  by (induction col) (auto simp: shortLinks_query_def shortLinks_update_def increment_def)

lemma findByShortCode_incrementClicks:
  assumes "findByShortCode code col = Some d"
  shows "findByShortCode code (incrementClicks code col) = Some (increment 1 d)"
proof -
  from assms obtain x xs where q: "shortLinks_query code col = x # xs" and d: "d = snd x"
    by (auto simp: findByShortCode_def split: list.splits)
  have "incrementClicks code col = shortLinks_update (fst x) (increment 1) col"
    by (simp add: incrementClicks_def q)
  then have "shortLinks_query code (incrementClicks code col) =
      shortLinks_update (fst x) (increment 1) (x # xs)"
    by (simp add: query_update q)
  then show ?thesis
    by (simp add: findByShortCode_def shortLinks_update_def d)
qed

lemma findByShortCode_incrementClicks_None:
  "findByShortCode code col = None \<Longrightarrow> incrementClicks code col = col"
  by (auto simp: findByShortCode_def incrementClicks_def split: list.splits)



lemma findByShortCode_Some_iff:
  "(\<exists>d. findByShortCode code col = Some d) \<longleftrightarrow> (\<exists>x \<in> set col. shortCode (snd x) = code)"
  using findByShortCode_None_iff [of code col] by (auto simp: list_all_iff)

lemma query_map_creatorIp:
  "shortLinks_query code (map (\<lambda>x. (fst x, (snd x)\<lparr>creatorIp := f x\<rparr>)) col) =
   map (\<lambda>x. (fst x, (snd x)\<lparr>creatorIp := f x\<rparr>)) (shortLinks_query code col)"
  by (induction col) (auto simp: shortLinks_query_def)

lemma findByShortCode_map_creatorIp_None:
  "findByShortCode code col = None \<Longrightarrow>
   findByShortCode code (map (\<lambda>x. (fst x, (snd x)\<lparr>creatorIp := f x\<rparr>)) col) = None"
  by (simp add: findByShortCode_def query_map_creatorIp split: list.splits)

lemma findByShortCode_map_creatorIp_Some:
  "findByShortCode code col = Some d \<Longrightarrow>
   \<exists>ip. findByShortCode code (map (\<lambda>x. (fst x, (snd x)\<lparr>creatorIp := f x\<rparr>)) col) =
     Some (d\<lparr>creatorIp := ip\<rparr>)"
  by (auto simp: findByShortCode_def query_map_creatorIp split: list.splits)

section \<open>Every operation keeps the documents it finds\<close>

lemma update_member:
  "(i, d) \<in> set col \<Longrightarrow>
   (i, d) \<in> set (shortLinks_update j (increment 1) col) \<or>
   (i, increment 1 d) \<in> set (shortLinks_update j (increment 1) col)"
  by (force simp: shortLinks_update_def)

lemma incrementClicks_member:
  "(i, d) \<in> set col \<Longrightarrow>
   (i, d) \<in> set (incrementClicks code col) \<or> (i, increment 1 d) \<in> set (incrementClicks code col)"
  by (auto simp: incrementClicks_def split: list.splits dest: update_member)

lemma add_member: "x \<in> set col \<Longrightarrow> x \<in> set (shortLinks_add pos i d col)"
proof -
  assume "x \<in> set col"
  then have "x \<in> set (take pos col @ drop pos col)" by simp
  then show ?thesis unfolding shortLinks_add_def by (auto simp del: append_take_drop_id)
qed

lemma createShortLink_member:
  "x \<in> set col \<Longrightarrow> x \<in> set (snd (createShortLink baseUrl e createDto ip col))"
  by (simp add: createShortLink_def Let_def create_def add_member split: option.splits)

lemma getLongUrl_member:
  "(i, d) \<in> set col \<Longrightarrow>
   (i, d) \<in> set (fst (snd (getLongUrl rejection code col))) \<or>
   (i, increment 1 d) \<in> set (fst (snd (getLongUrl rejection code col)))"
  by (auto simp: getLongUrl_def split: option.splits dest: incrementClicks_member)

lemma perform_member:
  "(i, d) \<in> set col \<Longrightarrow>
   (i, d) \<in> set (perform baseUrl op col) \<or> (i, increment 1 d) \<in> set (perform baseUrl op col)"
  by (cases op) (auto simp: createShortLink_member dest: getLongUrl_member incrementClicks_member)

lemma perform_all_member:
  "(i, d) \<in> set col \<Longrightarrow>
   \<exists>k. (i, increment (int k) d) \<in> set (perform_all baseUrl ops col)"
proof (induction ops arbitrary: col d)
  case Nil
  then have "(i, increment (int 0) d) \<in> set (perform_all baseUrl [] col)"
    by (simp add: increment_def)
  then show ?case by blast
next
  case (Cons op ops)
  from perform_member [OF Cons.prems, of baseUrl op]
  show ?case
  proof
    assume "(i, d) \<in> set (perform baseUrl op col)"
    from Cons.IH [OF this] show ?thesis by simp
  next
    assume "(i, increment 1 d) \<in> set (perform baseUrl op col)"
    from Cons.IH [OF this] obtain k where
      "(i, increment (int k) (increment 1 d)) \<in> set (perform_all baseUrl (op # ops) col)"
      by auto
    then have "(i, increment (int (Suc k)) d) \<in> set (perform_all baseUrl (op # ops) col)"
      by (simp add: increment_def add.commute add.left_commute)
    then show ?thesis by blast
  qed
qed

section \<open>Creating a short link\<close>





section \<open>Following a short link\<close>

text \<open>
  C3, as amended. \<open>getLongUrl\<close> ends with the not-found exception exactly when no
  document carries the code. When the lookup finds a document, the call returns its
  \<open>longUrl\<close>; a following \<open>getShortLinkDetails\<close> shows one click more when the
  detached increment was fulfilled, and the same number of clicks when the store
  rejected it.
\<close>

theorem getLongUrl_lookup_and_click:
  "((\<exists>m. fst (getLongUrl rejection code col) = Inl (NotFoundException m)) \<longleftrightarrow>
      list_all (\<lambda>x. shortCode (snd x) \<noteq> code) col)
   \<and> (findByShortCode code col = Some d \<longrightarrow>
        fst (getLongUrl rejection code col) = Inr (longUrl d)
        \<and> getShortLinkDetails baseUrl code (fst (snd (getLongUrl None code col))) =
            Inr (buildResponse baseUrl (d\<lparr>clicks := clicks d + 1\<rparr>))
        \<and> getShortLinkDetails baseUrl code (fst (snd (getLongUrl (Some err) code col))) =
            Inr (buildResponse baseUrl d))"
proof -
  have a: "(\<exists>m. fst (getLongUrl rejection code col) = Inl (NotFoundException m)) \<longleftrightarrow>
      list_all (\<lambda>x. shortCode (snd x) \<noteq> code) col"
    unfolding findByShortCode_None_iff [symmetric]
    by (simp add: getLongUrl_def split: option.splits)
  have b: "findByShortCode code col = Some d \<Longrightarrow>
      fst (getLongUrl rejection code col) = Inr (longUrl d)"
    by (simp add: getLongUrl_def split: option.splits)
  have c: "findByShortCode code col = Some d \<Longrightarrow>
      getShortLinkDetails baseUrl code (fst (snd (getLongUrl None code col))) =
        Inr (buildResponse baseUrl (d\<lparr>clicks := clicks d + 1\<rparr>))"
    by (simp add: getLongUrl_def getShortLinkDetails_def findByShortCode_incrementClicks
        increment_def)
  have d: "findByShortCode code col = Some d \<Longrightarrow>
      getShortLinkDetails baseUrl code (fst (snd (getLongUrl (Some err) code col))) =
        Inr (buildResponse baseUrl d)"
    by (simp add: getLongUrl_def getShortLinkDetails_def)
  from a b c d show ?thesis by blast
qed

theorem getLongUrl_lookup_and_click_witness:
  "fst (getLongUrl None ''abc123'' example_collection) = Inr ''https://example.com/a/b/c''
   \<and> map_sum id res_clicks (getShortLinkDetails ''http://localhost:3000'' ''abc123''
        (fst (snd (getLongUrl None ''abc123'' example_collection)))) = Inr 1
   \<and> fst (getLongUrl None ''nosuch'' example_collection) =
        Inl (NotFoundException (notFoundMessage ''nosuch''))"
proof -
  have f: "findByShortCode ''abc123'' example_collection = Some example_link"
    by (simp add: findByShortCode_def shortLinks_query_def example_collection_def example_link_def)
  have n: "list_all (\<lambda>x. shortCode (snd x) \<noteq> ''nosuch'') example_collection"
    by (simp add: example_collection_def example_link_def)
  have g: "\<exists>m. fst (getLongUrl None ''nosuch'' example_collection) = Inl (NotFoundException m)"
    using getLongUrl_lookup_and_click [of None "''nosuch''" example_collection] n by blast
  have "fst (getLongUrl None ''nosuch'' example_collection) =
        Inl (NotFoundException (notFoundMessage ''nosuch''))"
    using g by (auto simp: getLongUrl_def split: option.splits)
  then show ?thesis
    using getLongUrl_lookup_and_click [of None "''abc123''" example_collection example_link
        "''http://localhost:3000''"] f
    by (simp add: buildResponse_def example_link_def)
qed

text \<open>
  C3 as stated promises one click more after every call on a known code. Here the code
  is known and the store rejects the detached increment: the call returns the URL, the
  handler writes the rejection to the console, and the details still show 0 clicks.
\<close>

theorem getLongUrl_click_counterexample:
  "findByShortCode ''abc123'' example_collection = Some example_link
   \<and> clicks example_link = 0
   \<and> fst (getLongUrl (Some ''UNAVAILABLE'') ''abc123'' example_collection) =
       Inr ''https://example.com/a/b/c''
   \<and> map_sum id res_clicks (getShortLinkDetails ''http://localhost:3000'' ''abc123''
        (fst (snd (getLongUrl (Some ''UNAVAILABLE'') ''abc123'' example_collection)))) = Inr 0
   \<and> map_sum id res_clicks (getShortLinkDetails ''http://localhost:3000'' ''abc123''
        (fst (snd (getLongUrl (Some ''UNAVAILABLE'') ''abc123'' example_collection)))) \<noteq>
       Inr (clicks example_link + 1)"
  by (simp add: getLongUrl_def getShortLinkDetails_def findByShortCode_def shortLinks_query_def
      example_collection_def example_link_def buildResponse_def)

text \<open>
  C6. The result of \<open>getLongUrl\<close> is the same whether the detached increment is
  fulfilled or rejected. On a known code it is the stored \<open>longUrl\<close> in both cases; a
  rejection only adds a line to the console and leaves the collection as it was, so the
  increment is not made later either.
\<close>

theorem getLongUrl_result_independent_of_increment:
  "fst (getLongUrl (Some err) code col) = fst (getLongUrl None code col)
   \<and> (findByShortCode code col = Some d \<longrightarrow>
        getLongUrl (Some err) code col =
          (Inr (longUrl d), col, [''Failed to increment clicks: '' @ err])
        \<and> fst (getLongUrl None code col) = Inr (longUrl d)
        \<and> snd (snd (getLongUrl None code col)) = [])"
  by (simp add: getLongUrl_def split: option.splits)

theorem getLongUrl_result_independent_of_increment_witness:
  "getLongUrl (Some ''UNAVAILABLE'') ''abc123'' example_collection =
     (Inr ''https://example.com/a/b/c'', example_collection,
      [''Failed to increment clicks: UNAVAILABLE''])
   \<and> fst (getLongUrl None ''abc123'' example_collection) = Inr ''https://example.com/a/b/c''"
proof -
  have f: "findByShortCode ''abc123'' example_collection = Some example_link"
    by (simp add: findByShortCode_def shortLinks_query_def example_collection_def example_link_def)
  show ?thesis
    using getLongUrl_result_independent_of_increment
      [of "''UNAVAILABLE''" "''abc123''" example_collection example_link] f
    by (simp add: example_link_def)
qed

section \<open>The generated code\<close>

text \<open>
  C4. The generator returns what stands at positions 2 to 7 of the draw's text. For the
  draw 0.5 the text is \<open>0.i\<close> and the code is the single character \<open>i\<close>, which
  the rules of a short code (3 to 50 characters) refuse; for the draw 0 the text is
  \<open>0\<close> and the code is empty. The link is created under the code \<open>i\<close>; its
  \<open>shortUrl\<close> is the base URL, \<open>/\<close> and that code.
\<close>

theorem generateShortCode_too_short:
  "generateShortCode ''0.i'' = ''i''
   \<and> \<not> validate_shortCode (generateShortCode ''0.i'')
   \<and> generateShortCode ''0'' = ''''
   \<and> createShortLink ''http://localhost:3000'' (example_env\<lparr>env_random := ''0.i''\<rparr>)
        \<lparr> dto_longUrl = ''https://example.com/a/b/c'', dto_customAlias = None \<rparr> None [] =
      (Inr \<lparr> res_shortCode = ''i'', res_longUrl = ''https://example.com/a/b/c'',
             res_shortUrl = ''http://localhost:3000/i'', res_createdAt = 1700000000500,
             res_clicks = 0 \<rparr>,
       [(''doc2'', \<lparr> longUrl = ''https://example.com/a/b/c'', shortCode = ''i'',
                     createdAt = 1700000000500, clicks = 0, creatorIp = None \<rparr>)])"
  by (simp add: generateShortCode_def substring_def validate_shortCode_def MinLength_def
      createShortLink_def resolveShortCode_def Let_def findByShortCode_def shortLinks_query_def
      create_def shortLinks_add_def buildResponse_def example_env_def)

text \<open>
  When the text of the draw has six digits or more after \<open>0.\<close>, the code is the first
  six of them and a well-formed short code.
\<close>

lemma generateShortCode_six_digits:
  assumes "r = ''0.'' @ ds" and "6 \<le> length ds" and "list_all alias_char ds"
  shows "generateShortCode r = take 6 ds \<and> validate_shortCode (generateShortCode r)"
proof -
  have g: "generateShortCode r = take 6 ds"
    using assms by (simp add: generateShortCode_def substring_def Let_def min_def max_def)
  have "list_all alias_char (take 6 ds)"
    using assms(3) by (auto simp: list_all_iff dest: in_set_takeD)
  moreover have "take 6 ds \<noteq> []" using assms(2) by auto
  ultimately show ?thesis
    using assms(2) by (simp add: g validate_shortCode_def MinLength_def MaxLength_def Matches_def)
qed

section \<open>What happens to a stored document\<close>

text \<open>
  C5. A document of the collection is still there, under its id, after any sequence of
  the four operations, with the same \<open>longUrl\<close>, \<open>shortCode\<close>, \<open>createdAt\<close> and
  \<open>creatorIp\<close> and with its \<open>clicks\<close> raised by some \<open>k \<ge> 0\<close>. A single
  \<open>createShortLink\<close> or \<open>getShortLinkDetails\<close> leaves it as it is; a single
  \<open>getLongUrl\<close> or \<open>incrementClicks\<close> leaves it as it is or adds exactly 1 to its
  \<open>clicks\<close>.
\<close>

theorem record_changes_only_by_increments:
  assumes "(i, d) \<in> set col"
  shows "(\<exists>k. (i, d\<lparr>clicks := clicks d + int k\<rparr>) \<in> set (perform_all baseUrl ops col))
    \<and> (i, d) \<in> set (perform baseUrl (CreateShortLink e createDto ip) col)
    \<and> (i, d) \<in> set (perform baseUrl (GetShortLinkDetails code) col)
    \<and> ((i, d) \<in> set (perform baseUrl (GetLongUrl rejection code) col)
        \<or> (i, d\<lparr>clicks := clicks d + 1\<rparr>) \<in> set (perform baseUrl (GetLongUrl rejection code) col))
    \<and> ((i, d) \<in> set (perform baseUrl (IncrementClicks code) col)
        \<or> (i, d\<lparr>clicks := clicks d + 1\<rparr>) \<in> set (perform baseUrl (IncrementClicks code) col))"
proof -
  have 1: "\<exists>k. (i, d\<lparr>clicks := clicks d + int k\<rparr>) \<in> set (perform_all baseUrl ops col)"
    using perform_all_member [OF assms, of baseUrl ops] by (simp add: increment_def)
  have 2: "(i, d) \<in> set (perform baseUrl (CreateShortLink e createDto ip) col)"
    using assms by (simp add: createShortLink_member)
  have 3: "(i, d) \<in> set (perform baseUrl (GetShortLinkDetails code) col)"
    using assms by simp
  have 4: "(i, d) \<in> set (perform baseUrl (GetLongUrl rejection code) col)
        \<or> (i, d\<lparr>clicks := clicks d + 1\<rparr>) \<in> set (perform baseUrl (GetLongUrl rejection code) col)"
    using perform_member [OF assms, of baseUrl "GetLongUrl rejection code"]
    by (simp add: increment_def)
  have 5: "(i, d) \<in> set (perform baseUrl (IncrementClicks code) col)
        \<or> (i, d\<lparr>clicks := clicks d + 1\<rparr>) \<in> set (perform baseUrl (IncrementClicks code) col)"
    using perform_member [OF assms, of baseUrl "IncrementClicks code"]
    by (simp add: increment_def)
  from 1 2 3 4 5 show ?thesis by blast
qed

theorem record_changes_only_by_increments_witness:
  "(\<exists>k. (''doc1'', example_link\<lparr>clicks := clicks example_link + int k\<rparr>) \<in>
      set (perform_all ''http://localhost:3000''
            [GetLongUrl None ''abc123'', CreateShortLink example_env example_dto None,
             IncrementClicks ''abc123'', GetShortLinkDetails ''abc123'',
             GetLongUrl (Some ''UNAVAILABLE'') ''abc123'']
            example_collection))
   \<and> perform_all ''http://localhost:3000''
            [GetLongUrl None ''abc123'', IncrementClicks ''abc123'',
             GetLongUrl (Some ''UNAVAILABLE'') ''abc123'']
            example_collection = [(''doc1'', example_link\<lparr>clicks := 2\<rparr>)]"
proof -
  have h: "(''doc1'', example_link) \<in> set example_collection"
    by (simp add: example_collection_def)
  have "perform_all ''http://localhost:3000''
            [GetLongUrl None ''abc123'', IncrementClicks ''abc123'',
             GetLongUrl (Some ''UNAVAILABLE'') ''abc123'']
            example_collection = [(''doc1'', example_link\<lparr>clicks := 2\<rparr>)]"
    by (simp add: getLongUrl_def findByShortCode_def shortLinks_query_def incrementClicks_def
        shortLinks_update_def increment_def example_collection_def example_link_def)
  then show ?thesis
    using record_changes_only_by_increments [OF h, of "''http://localhost:3000''"
        "[GetLongUrl None ''abc123'', CreateShortLink example_env example_dto None,
             IncrementClicks ''abc123'', GetShortLinkDetails ''abc123'',
             GetLongUrl (Some ''UNAVAILABLE'') ''abc123'']"]
    by blast
qed

text \<open>
  C8. \<open>incrementClicks\<close> leaves the collection as it is when no document carries the
  code. Otherwise it looks the code up again and adds 1 to the \<open>clicks\<close> of the
  document the query returns first: a lookup of the code then finds that document with
  one click more, the collection keeps its length, and every document under another id
  is untouched. The function has no failing branch.
\<close>

theorem incrementClicks_effect:
  "(list_all (\<lambda>x. shortCode (snd x) \<noteq> code) col \<longrightarrow> incrementClicks code col = col)
   \<and> (findByShortCode code col = Some d \<longrightarrow>
        findByShortCode code (incrementClicks code col) = Some (d\<lparr>clicks := clicks d + 1\<rparr>))
   \<and> (shortLinks_query code col = (i, d) # rest \<longrightarrow>
        length (incrementClicks code col) = length col
        \<and> (\<forall>k < length col. incrementClicks code col ! k =
              (if fst (col ! k) = i
               then (i, (snd (col ! k))\<lparr>clicks := clicks (snd (col ! k)) + 1\<rparr>)
               else col ! k)))"
proof -
  have a: "list_all (\<lambda>x. shortCode (snd x) \<noteq> code) col \<Longrightarrow> incrementClicks code col = col"
    by (simp add: findByShortCode_None_iff [symmetric] findByShortCode_incrementClicks_None)
  have b: "findByShortCode code col = Some d \<Longrightarrow>
        findByShortCode code (incrementClicks code col) = Some (d\<lparr>clicks := clicks d + 1\<rparr>)"
    using findByShortCode_incrementClicks [of code col d] by (simp add: increment_def)
  have c: "shortLinks_query code col = (i, d) # rest \<Longrightarrow>
        length (incrementClicks code col) = length col
        \<and> (\<forall>k < length col. incrementClicks code col ! k =
              (if fst (col ! k) = i
               then (i, (snd (col ! k))\<lparr>clicks := clicks (snd (col ! k)) + 1\<rparr>)
               else col ! k))"
    by (simp add: incrementClicks_def shortLinks_update_def increment_def)
  from a b c show ?thesis by blast
qed

theorem incrementClicks_effect_witness:
  "incrementClicks ''abc123'' example_collection = [(''doc1'', example_link\<lparr>clicks := 1\<rparr>)]
   \<and> incrementClicks ''nosuch'' example_collection = example_collection"
proof -
  have n: "list_all (\<lambda>x. shortCode (snd x) \<noteq> ''nosuch'') example_collection"
    by (simp add: example_collection_def example_link_def)
  have q: "shortLinks_query ''abc123'' example_collection = (''doc1'', example_link) # []"
    by (simp add: shortLinks_query_def example_collection_def example_link_def)
  have "incrementClicks ''abc123'' example_collection ! 0 = (''doc1'', example_link\<lparr>clicks := 1\<rparr>)
        \<and> length (incrementClicks ''abc123'' example_collection) = 1"
    using incrementClicks_effect [of "''abc123''" example_collection example_link "''doc1''" "[]"] q
    by (simp add: example_collection_def example_link_def)
  then have "incrementClicks ''abc123'' example_collection = [(''doc1'', example_link\<lparr>clicks := 1\<rparr>)]"
    by (cases "incrementClicks ''abc123'' example_collection") auto
  then show ?thesis
    using incrementClicks_effect [of "''nosuch''" example_collection] n by blast
qed

section \<open>Validation of the alias\<close>

text \<open>
  C7. A request whose \<open>customAlias\<close> is shorter than 3 characters, longer than 50, or
  holds a character that is no letter, digit, hyphen or underscore is answered with the
  validation pipe's exception. The answer is the same for every collection, and the
  collection is returned as it was: the service, and with it the store, is not reached.
\<close>

theorem invalid_alias_rejected_before_store:
  assumes "length a < 3 \<or> 50 < length a \<or> (\<exists>c \<in> set a. \<not> alias_char c)"
  shows "controller_createShortLink isUrl baseUrl e
           \<lparr> dto_longUrl = u, dto_customAlias = Some a \<rparr> ip col =
         (Inl BadRequestException, col)"
  using assms
  by (auto simp: controller_createShortLink_def validate_CreateShortLinkDto_def
      validate_customAlias_def MinLength_def MaxLength_def Matches_def list_all_iff)

theorem invalid_alias_rejected_before_store_witness:
  "controller_createShortLink (\<lambda>u. True) ''http://localhost:3000'' example_env
     \<lparr> dto_longUrl = ''https://x.com'', dto_customAlias = Some ''ab'' \<rparr> ''198.51.100.4''
     example_collection = (Inl BadRequestException, example_collection)
   \<and> controller_createShortLink (\<lambda>u. True) ''http://localhost:3000'' example_env
     \<lparr> dto_longUrl = ''https://x.com'', dto_customAlias = Some ''my link'' \<rparr> ''198.51.100.4''
     example_collection = (Inl BadRequestException, example_collection)"
proof -
  have h1: "length ''ab'' < 3 \<or> 50 < length ''ab'' \<or> (\<exists>c \<in> set ''ab''. \<not> alias_char c)"
    by simp
  have h2: "length ''my link'' < 3 \<or> 50 < length ''my link'' \<or> (\<exists>c \<in> set ''my link''. \<not> alias_char c)"
    by (simp add: alias_char_def)
  show ?thesis
    using invalid_alias_rejected_before_store [OF h1] invalid_alias_rejected_before_store [OF h2]
    by simp
qed

text \<open>An alias that keeps the three rules, with a valid URL, is passed to the service.\<close>

lemma valid_alias_reaches_service:
  "isUrl u \<Longrightarrow> 3 \<le> length a \<Longrightarrow> length a \<le> 50 \<Longrightarrow> list_all alias_char a \<Longrightarrow>
   controller_createShortLink isUrl baseUrl e \<lparr> dto_longUrl = u, dto_customAlias = Some a \<rparr> ip col =
   createShortLink baseUrl e \<lparr> dto_longUrl = u, dto_customAlias = Some a \<rparr> (Some ip) col"
  by (auto simp: controller_createShortLink_def validate_CreateShortLinkDto_def
      validate_customAlias_def MinLength_def MaxLength_def Matches_def)

section \<open>The creator's IP\<close>

text \<open>
  C9. No response depends on \<open>creatorIp\<close>: \<open>buildResponse\<close> gives the same summary
  for two documents that differ only in that field, and the results of
  \<open>createShortLink\<close> and \<open>getShortLinkDetails\<close> do not change when the creator's IP
  of the call or of any stored document is replaced. The summary of a stored document
  holds exactly its \<open>shortCode\<close>, \<open>longUrl\<close>, \<open>createdAt\<close> and \<open>clicks\<close>, and
  the \<open>shortUrl\<close> built from the code; its type has no field for the IP.
\<close>

theorem creatorIp_not_in_responses:
  "buildResponse baseUrl (d\<lparr>creatorIp := ip'\<rparr>) = buildResponse baseUrl d
   \<and> fst (createShortLink baseUrl e createDto ip
            (map (\<lambda>x. (fst x, (snd x)\<lparr>creatorIp := f x\<rparr>)) col)) =
       fst (createShortLink baseUrl e createDto ip' col)
   \<and> getShortLinkDetails baseUrl code (map (\<lambda>x. (fst x, (snd x)\<lparr>creatorIp := f x\<rparr>)) col) =
       getShortLinkDetails baseUrl code col
   \<and> (findByShortCode code col = Some d \<longrightarrow>
        getShortLinkDetails baseUrl code col =
          Inr \<lparr> res_shortCode = shortCode d, res_longUrl = longUrl d,
                res_shortUrl = baseUrl @ ''/'' @ shortCode d, res_createdAt = createdAt d,
                res_clicks = clicks d \<rparr>)"
proof -
  let ?col' = "map (\<lambda>x. (fst x, (snd x)\<lparr>creatorIp := f x\<rparr>)) col"
  have a: "buildResponse baseUrl (d\<lparr>creatorIp := ip'\<rparr>) = buildResponse baseUrl d" for d ip'
    by (simp add: buildResponse_def)
  have b: "fst (createShortLink baseUrl e createDto ip ?col') =
       fst (createShortLink baseUrl e createDto ip' col)"
  proof (cases "findByShortCode (resolveShortCode e createDto) col")
    case None
    from findByShortCode_map_creatorIp_None [OF this, of f] None show ?thesis
      by (simp add: createShortLink_def Let_def create_def buildResponse_def)
  next
    case (Some x)
    from findByShortCode_map_creatorIp_Some [OF this, of f] Some show ?thesis
      by (auto simp: createShortLink_def Let_def)
  qed
  have c: "getShortLinkDetails baseUrl code ?col' = getShortLinkDetails baseUrl code col"
  proof (cases "findByShortCode code col")
    case None
    from findByShortCode_map_creatorIp_None [OF this, of f] None show ?thesis
      by (simp add: getShortLinkDetails_def)
  next
    case (Some x)
    from findByShortCode_map_creatorIp_Some [OF this, of f] Some show ?thesis
      by (auto simp: getShortLinkDetails_def a)
  qed
  have d: "findByShortCode code col = Some d \<Longrightarrow>
        getShortLinkDetails baseUrl code col =
          Inr \<lparr> res_shortCode = shortCode d, res_longUrl = longUrl d,
                res_shortUrl = baseUrl @ ''/'' @ shortCode d, res_createdAt = createdAt d,
                res_clicks = clicks d \<rparr>"
    by (simp add: getShortLinkDetails_def buildResponse_def)
  from a b c d show ?thesis by blast
qed

theorem creatorIp_not_in_responses_witness:
  "getShortLinkDetails ''http://localhost:3000'' ''abc123'' example_collection =
     Inr \<lparr> res_shortCode = ''abc123'', res_longUrl = ''https://example.com/a/b/c'',
           res_shortUrl = ''http://localhost:3000/abc123'', res_createdAt = 1700000000000,
           res_clicks = 0 \<rparr>
   \<and> getShortLinkDetails ''http://localhost:3000'' ''abc123''
       [(''doc1'', example_link\<lparr>creatorIp := None\<rparr>)] =
     getShortLinkDetails ''http://localhost:3000'' ''abc123'' example_collection"
proof -
  have f: "findByShortCode ''abc123'' example_collection = Some example_link"
    by (simp add: findByShortCode_def shortLinks_query_def example_collection_def example_link_def)
  show ?thesis
    using creatorIp_not_in_responses [where baseUrl = "''http://localhost:3000''"
        and d = example_link and f = "\<lambda>x. None" and col = example_collection
        and code = "''abc123''"] f
    by (simp add: example_link_def example_collection_def)
qed

section \<open>The empty alias\<close>

text \<open>
  C10. At the service interface a call whose \<open>customAlias\<close> is the empty string is
  not refused for its alias and is not looked up under the empty code: the truthiness
  test replaces the empty alias by the generated code. When no document carries the
  generated code the link is created under it, with the summary and the new document of
  a call without alias; when one does, the call ends with the conflict exception that
  quotes the generated code. In both cases result and collection are those of the call
  with no alias, whatever the environment and the collection are.
\<close>

theorem empty_alias_is_no_alias:
  "createShortLink baseUrl e (createDto\<lparr>dto_customAlias := Some ''''\<rparr>) ip col =
     (let code = generateShortCode (env_random e) in
      if list_all (\<lambda>x. shortCode (snd x) \<noteq> code) col
      then (Inr \<lparr> res_shortCode = code, res_longUrl = dto_longUrl createDto,
                   res_shortUrl = baseUrl @ ''/'' @ code, res_createdAt = env_now e,
                   res_clicks = 0 \<rparr>,
            take (env_pos e) col @
              (env_id e, \<lparr> longUrl = dto_longUrl createDto, shortCode = code,
                            createdAt = env_now e, clicks = 0, creatorIp = ip \<rparr>) #
              drop (env_pos e) col)
      else (Inl (ConflictException
              (''Short code '' @ [CHR 0x22] @ code @ [CHR 0x22] @
               '' is already in use. Please choose another alias.'')), col))
   \<and> createShortLink baseUrl e (createDto\<lparr>dto_customAlias := Some ''''\<rparr>) ip col =
       createShortLink baseUrl e (createDto\<lparr>dto_customAlias := None\<rparr>) ip col
   \<and> resolveShortCode e (createDto\<lparr>dto_customAlias := Some ''''\<rparr>) =
       generateShortCode (env_random e)"
proof -
  let ?code = "generateShortCode (env_random e)"
  have r: "resolveShortCode e (createDto\<lparr>dto_customAlias := Some ''''\<rparr>) = ?code"
    by (simp add: resolveShortCode_def)
  have same: "createShortLink baseUrl e (createDto\<lparr>dto_customAlias := Some ''''\<rparr>) ip col =
       createShortLink baseUrl e (createDto\<lparr>dto_customAlias := None\<rparr>) ip col"
    by (simp add: createShortLink_def resolveShortCode_def Let_def split: option.split)
  have full: "createShortLink baseUrl e (createDto\<lparr>dto_customAlias := Some ''''\<rparr>) ip col =
     (let code = generateShortCode (env_random e) in
      if list_all (\<lambda>x. shortCode (snd x) \<noteq> code) col
      then (Inr \<lparr> res_shortCode = code, res_longUrl = dto_longUrl createDto,
                   res_shortUrl = baseUrl @ ''/'' @ code, res_createdAt = env_now e,
                   res_clicks = 0 \<rparr>,
            take (env_pos e) col @
              (env_id e, \<lparr> longUrl = dto_longUrl createDto, shortCode = code,
                            createdAt = env_now e, clicks = 0, creatorIp = ip \<rparr>) #
              drop (env_pos e) col)
      else (Inl (ConflictException
              (''Short code '' @ [CHR 0x22] @ code @ [CHR 0x22] @
               '' is already in use. Please choose another alias.'')), col))"
  proof (cases "findByShortCode ?code col")
    case None
    then have "list_all (\<lambda>x. shortCode (snd x) \<noteq> ?code) col"
      by (simp add: findByShortCode_None_iff)
    with None show ?thesis
      by (simp add: createShortLink_def r Let_def create_def shortLinks_add_def
          buildResponse_def)
  next
    case (Some d)
    then have "\<not> list_all (\<lambda>x. shortCode (snd x) \<noteq> ?code) col"
      by (simp add: findByShortCode_None_iff [symmetric])
    with Some show ?thesis
      by (simp add: createShortLink_def r Let_def conflictMessage_def quoted_def)
  qed
  from full same r show ?thesis by blast
qed

text \<open>
  Two instances. A document stored under the empty code does not stand in the way of
  an empty alias: the link is created under \<open>k7x2mq\<close>. And an empty alias meets a
  conflict when the generated code \<open>abc123\<close> is taken.
\<close>

theorem empty_alias_is_no_alias_witness:
  "createShortLink ''http://localhost:3000'' example_env
      \<lparr> dto_longUrl = ''https://example.org/'', dto_customAlias = Some '''' \<rparr>
      None [(''doc0'', example_link\<lparr>shortCode := ''''\<rparr>)] =
     (Inr \<lparr> res_shortCode = ''k7x2mq'', res_longUrl = ''https://example.org/'',
            res_shortUrl = ''http://localhost:3000/k7x2mq'', res_createdAt = 1700000000500,
            res_clicks = 0 \<rparr>,
      [(''doc2'', \<lparr> longUrl = ''https://example.org/'', shortCode = ''k7x2mq'',
                    createdAt = 1700000000500, clicks = 0, creatorIp = None \<rparr>),
       (''doc0'', example_link\<lparr>shortCode := ''''\<rparr>)])
   \<and> fst (createShortLink ''http://localhost:3000'' (example_env\<lparr>env_random := ''0.abc123zzk4''\<rparr>)
      \<lparr> dto_longUrl = ''https://example.org/'', dto_customAlias = Some '''' \<rparr>
      None example_collection) =
     Inl (ConflictException
        (''Short code '' @ [CHR 0x22] @ ''abc123'' @ [CHR 0x22] @
         '' is already in use. Please choose another alias.''))"
proof -
  have g1: "generateShortCode ''0.k7x2mq9d1f'' = ''k7x2mq''"
    by (simp add: generateShortCode_def substring_def)
  have g2: "generateShortCode ''0.abc123zzk4'' = ''abc123''"
    by (simp add: generateShortCode_def substring_def)
  show ?thesis
    using empty_alias_is_no_alias [of "''http://localhost:3000''" example_env
        "\<lparr> dto_longUrl = ''https://example.org/'', dto_customAlias = None \<rparr>" None
        "[(''doc0'', example_link\<lparr>shortCode := ''''\<rparr>)]"]
      empty_alias_is_no_alias [of "''http://localhost:3000''"
        "example_env\<lparr>env_random := ''0.abc123zzk4''\<rparr>"
        "\<lparr> dto_longUrl = ''https://example.org/'', dto_customAlias = None \<rparr>" None
        example_collection]
    by (simp add: g1 g2 Let_def example_env_def example_link_def example_collection_def)
qed

end
